theory Spec2Isabelle
  imports Complex_Main "HOL-Library.Stream"
begin

section \<open>Python exceptions raised by the notebooks' code\<close>

text \<open>
  The notebooks are Python. An exception that leaves a function is a value of
  \<open>py_error\<close>; a function that can raise returns \<open>py_error + 'a\<close> with \<open>Inl\<close> the
  exception.
\<close>

datatype py_error =
    TypeError
  | IndexError
  | NameError string
  | QiskitError string

section \<open>Warm start: \<open>TrainableModel._choose_initial_point\<close>\<close>

text \<open>
  Notebook \<open>2022-03-17/2-fix-vqc-training-with-warm-start.ipynb\<close> quotes the method
  after the fix:
  \<^verbatim>\<open>
         if self._warm_start and self._fit_result is not None:
            self._initial_point = self._fit_result.x
#            self._initial_point = self._fit_result[0]
         elif self._initial_point is None:
             self._initial_point = algorithm_globals.random.random(self._neural_network.num_weights)
         return self._initial_point
  \<close>
  The fields it reads and writes form the state. A point is a vector of samples; the
  method never computes with the entries, so their type is left open.
\<close>

record 'a OptimizerResult =
  opt_x :: "'a list option"
    \<comment> \<open>\<open>OptimizerResult.x\<close>, the final point of the minimization; optional in Python\<close>

record 'a TrainableModel =
  warm_start :: bool  \<comment> \<open>\<open>self._warm_start\<close>\<close>
  fit_result :: "'a OptimizerResult option"  \<comment> \<open>\<open>self._fit_result\<close>, \<open>None\<close> before the first fit\<close>
  initial_point :: "'a list option"  \<comment> \<open>\<open>self._initial_point\<close>\<close>
  num_weights :: nat  \<comment> \<open>\<open>self._neural_network.num_weights\<close>\<close>

text \<open>
  \<open>algorithm_globals.random\<close> is the framework's shared pseudo-random generator. It is
  a parameter here: the stream of samples the generator will yield. \<open>random(n)\<close> hands
  out the next \<open>n\<close> samples and advances the generator.
\<close>

definition random_sample :: "'a stream \<Rightarrow> nat \<Rightarrow> 'a list \<times> 'a stream" where
  "random_sample g n = (stake n g, sdrop n g)"

text \<open>
  The method returns \<open>self._initial_point\<close>, an optional value in Python; the model
  returns it as it stands, with the updated object and generator.
\<close>

definition choose_initial_point ::
  "'a stream \<Rightarrow> 'a TrainableModel \<Rightarrow> 'a list option \<times> 'a TrainableModel \<times> 'a stream" where
  "choose_initial_point g self =
     (let (self', g') =
        (if warm_start self \<and> fit_result self \<noteq> None then
           (case fit_result self of
              Some r \<Rightarrow> (self\<lparr>initial_point := opt_x r\<rparr>, g)
            | None \<Rightarrow> (self, g))
         else if initial_point self = None then
           (let (p, g') = random_sample g (num_weights self)
            in (self\<lparr>initial_point := Some p\<rparr>, g'))
         else (self, g))
      in (initial_point self', self', g'))"

text \<open>
  Before the fix the first branch read \<open>self._fit_result[0]\<close> (the commented line). The
  notebook explains that the optimizer's new \<open>minimize\<close> returns an \<open>OptimizerResult\<close>
  object where the old \<open>optimize\<close> returned a subscriptable tuple, so the subscript
  raises.
\<close>

definition choose_initial_point_before_fix ::
  "'a stream \<Rightarrow> 'a TrainableModel \<Rightarrow>
     py_error + ('a list option \<times> 'a TrainableModel \<times> 'a stream)" where
  "choose_initial_point_before_fix g self =
     (if warm_start self \<and> fit_result self \<noteq> None then Inl TypeError
      else if initial_point self = None then
        (let (p, g') = random_sample g (num_weights self);
             self' = self\<lparr>initial_point := Some p\<rparr>
         in Inr (initial_point self', self', g'))
      else Inr (initial_point self, self, g))"

text \<open>
  Modelled from the spec: \<open>TrainableModel.fit\<close>, which the notebook calls twice on one
  classifier built with \<open>warm_start=True\<close> but does not quote. The notebook describes
  it: training starts from the initial point the method above chooses; the optimizer's
  \<open>minimize\<close> returns an \<open>OptimizerResult\<close> whose property \<open>x\<close> holds the final point;
  and the fit saves that result ("We now correctly save the final point of the
  minimization of a fit"), in \<open>_fit_result\<close>, the field the method reads. The optimizer
  is a parameter: given the training data and the start point it returns a result or
  raises.
\<close>

definition fit ::
  "('d \<Rightarrow> 'a list option \<Rightarrow> py_error + 'a OptimizerResult) \<Rightarrow>
     'a stream \<Rightarrow> 'a TrainableModel \<Rightarrow> 'd \<Rightarrow> py_error + ('a TrainableModel \<times> 'a stream)" where
  "fit minimize g self data =
     (case choose_initial_point g self of
        (x0, self', g') \<Rightarrow>
          (case minimize data x0 of
             Inl e \<Rightarrow> Inl e
           | Inr r \<Rightarrow> Inr (self'\<lparr>fit_result := Some r\<rparr>, g')))"

text \<open>The same fit around the method as it stood before the fix.\<close>

definition fit_before_fix ::
  "('d \<Rightarrow> 'a list option \<Rightarrow> py_error + 'a OptimizerResult) \<Rightarrow>
     'a stream \<Rightarrow> 'a TrainableModel \<Rightarrow> 'd \<Rightarrow> py_error + ('a TrainableModel \<times> 'a stream)" where
  "fit_before_fix minimize g self data =
     (case choose_initial_point_before_fix g self of
        Inl e \<Rightarrow> Inl e
      | Inr (x0, self', g') \<Rightarrow>
          (case minimize data x0 of
             Inl e \<Rightarrow> Inl e
           | Inr r \<Rightarrow> Inr (self'\<lparr>fit_result := Some r\<rparr>, g')))"

section \<open>\<open>DummyClass\<close> of the deprecation notebook\<close>

text \<open>
  Notebook \<open>2022-09-29/3_deprecation_docs.ipynb\<close> defines
  \<^verbatim>\<open>
  class DummyClass:
      def __init__(self, arg1: int = None, arg2: [int] = None):
          self.arg1 = arg1
          self.arg2 = arg2

      def foo_deprecated(self, index_arg2: int):
          if len(self.arg2) < index_arg2:
              raise QiskitError("there is an error")
          return self.arg2[index_arg2]
  \<close>
  Both constructor arguments default to \<open>None\<close>. The method carries the framework's
  \<open>deprecate_function\<close> decorator, which is not defined in the notebook; the model is
  the method body as the notebook writes it.
\<close>

record DummyClass =
  arg1 :: "int option"
  arg2 :: "int list option"

definition DummyClass_init :: "int option \<Rightarrow> int list option \<Rightarrow> DummyClass" where
  "DummyClass_init a1 a2 = \<lparr>arg1 = a1, arg2 = a2\<rparr>"

text \<open>\<open>len(None)\<close> raises \<open>TypeError\<close>.\<close>

definition py_len :: "'a list option \<Rightarrow> py_error + int" where
  "py_len v = (case v of None \<Rightarrow> Inl TypeError | Some xs \<Rightarrow> Inr (int (length xs)))"

text \<open>
  Subscripting a list: a negative index counts from the end, an index outside
  \<open>-len \<dots> len - 1\<close> raises \<open>IndexError\<close>, and \<open>None\<close> is not subscriptable.
\<close>

definition py_getitem :: "'a list option \<Rightarrow> int \<Rightarrow> py_error + 'a" where
  "py_getitem v i =
     (case v of
        None \<Rightarrow> Inl TypeError
      | Some xs \<Rightarrow>
          if 0 \<le> i \<and> i < int (length xs) then Inr (xs ! nat i)
          else if i < 0 \<and> - int (length xs) \<le> i then Inr (xs ! nat (int (length xs) + i))
          else Inl IndexError)"

text \<open>
  A \<open>raise E(msg)\<close> statement first looks the name \<open>E\<close> up in the module's globals; an
  unbound name raises \<open>NameError\<close> instead. The notebook's cells bind the names below
  (two imports from \<open>qiskit.utils.deprecation\<close>, the class, \<open>d\<close>, \<open>f\<close> and
  \<open>__version__\<close>); no cell imports \<open>QiskitError\<close>.
\<close>

definition notebook_globals :: "string list" where
  "notebook_globals =
     [''deprecate_function'', ''deprecate_arguments'', ''DummyClass'', ''d'', ''f'',
      ''__version__'']"

definition raise_QiskitError :: "string list \<Rightarrow> string \<Rightarrow> py_error" where
  "raise_QiskitError globals msg =
     (if ''QiskitError'' \<in> set globals then QiskitError msg else NameError ''QiskitError'')"

definition foo_deprecated :: "string list \<Rightarrow> DummyClass \<Rightarrow> int \<Rightarrow> py_error + int" where
  "foo_deprecated globals self index_arg2 =
     (case py_len (arg2 self) of
        Inl e \<Rightarrow> Inl e
      | Inr n \<Rightarrow>
          if n < index_arg2 then Inl (raise_QiskitError globals ''there is an error'')
          else py_getitem (arg2 self) index_arg2)"

section \<open>Properties of the warm start\<close>

lemma random_sample_length: "length (fst (random_sample g n)) = n"
  by (simp add: random_sample_def)

lemma choose_initial_point_warm:
  "warm_start self \<Longrightarrow> fit_result self = Some r \<Longrightarrow>
     choose_initial_point g self = (opt_x r, self\<lparr>initial_point := opt_x r\<rparr>, g)"
  by (simp add: choose_initial_point_def)

lemma choose_initial_point_random:
  assumes "\<not> (warm_start self \<and> fit_result self \<noteq> None)" and "initial_point self = None"
  shows "choose_initial_point g self =
      (Some (stake (num_weights self) g),
       self\<lparr>initial_point := Some (stake (num_weights self) g)\<rparr>,
       sdrop (num_weights self) g)"
  using assms by (auto simp add: choose_initial_point_def random_sample_def)

lemma choose_initial_point_keep:
  assumes "\<not> (warm_start self \<and> fit_result self \<noteq> None)" and "initial_point self = Some p"
  shows "choose_initial_point g self = (Some p, self, g)"
  using assms by (auto simp add: choose_initial_point_def)

lemma choose_initial_point_returns_stored:
  "\<exists>v self' g'. choose_initial_point g self = (v, self', g') \<and> initial_point self' = v"
  by (simp add: choose_initial_point_def Let_def split: prod.splits)

lemma choose_initial_point_frame:
  assumes "choose_initial_point g self = (v, self', g')"
  shows "warm_start self' = warm_start self" and "fit_result self' = fit_result self"
    and "num_weights self' = num_weights self"
  using assms
  by (auto simp add: choose_initial_point_def Let_def split: if_splits option.splits prod.splits)

lemma fit_stores_result:
  assumes "fit minimize g self d = Inr (self1, g1)"
  shows "\<exists>r. minimize d (fst (choose_initial_point g self)) = Inr r
           \<and> fit_result self1 = Some r \<and> warm_start self1 = warm_start self"
proof -
  obtain x0 self' g' where c: "choose_initial_point g self = (x0, self', g')"
    by (cases "choose_initial_point g self") auto
  from assms c obtain r where r: "minimize d x0 = Inr r"
      and s1: "self1 = self'\<lparr>fit_result := Some r\<rparr>"
    by (auto simp add: fit_def split: sum.splits)
  from choose_initial_point_frame(1) [OF c] s1 have "warm_start self1 = warm_start self"
    by simp
  with r s1 c show ?thesis by simp
qed

lemma fit_warm_second:
  assumes "warm_start self1" and "fit_result self1 = Some r1"
  shows "fit minimize g1 self1 d2 =
     (case minimize d2 (opt_x r1) of
        Inl e \<Rightarrow> Inl e
      | Inr r2 \<Rightarrow> Inr (self1\<lparr>initial_point := opt_x r1, fit_result := Some r2\<rparr>, g1))"
  using assms by (simp add: fit_def choose_initial_point_warm split: sum.splits)

lemma fit_before_fix_warm_second:
  assumes "warm_start self1" and "fit_result self1 = Some r1"
  shows "fit_before_fix minimize g1 self1 d2 = Inl TypeError"
  using assms by (simp add: fit_before_fix_def choose_initial_point_before_fix_def)

text \<open>
  Claim C3. After the fix, \<open>_choose_initial_point\<close> does the following. When
  \<open>warm_start\<close> is set and a previous fit result exists, the initial point becomes that
  result's final point \<open>x\<close>. Otherwise, when no initial point is set, it becomes a
  vector drawn from the random generator whose length is the network's number of
  weights (and a point set beforehand is kept). In every case the method returns the
  point it has stored. Hence the second fit of a warm-started model: when a first fit
  on \<open>data\<close> has returned, it has stored the optimizer's result \<open>r\<close>, and a second fit
  on \<open>more_data\<close> runs the optimizer from \<open>r\<close>'s final point, stores the new result and
  fails only if the optimizer does; with the method as it stood before the fix the same
  second fit raises \<open>TypeError\<close>.
\<close>

theorem choose_initial_point_correct:
  fixes g gen :: "'a stream" and self fitted :: "'a TrainableModel"
    and minimize :: "'d \<Rightarrow> 'a list option \<Rightarrow> py_error + 'a OptimizerResult"
    and data more_data :: 'd
  shows
    "(\<forall>r. warm_start self \<and> fit_result self = Some r \<longrightarrow>
        choose_initial_point g self = (opt_x r, self\<lparr>initial_point := opt_x r\<rparr>, g))
     \<and> (\<not> (warm_start self \<and> fit_result self \<noteq> None) \<and> initial_point self = None \<longrightarrow>
        (\<exists>p g'. choose_initial_point g self = (Some p, self\<lparr>initial_point := Some p\<rparr>, g')
           \<and> (p, g') = random_sample g (num_weights self)
           \<and> length p = num_weights self))
     \<and> (\<forall>p. \<not> (warm_start self \<and> fit_result self \<noteq> None) \<and> initial_point self = Some p \<longrightarrow>
        choose_initial_point g self = (Some p, self, g))
     \<and> (\<exists>v self' g'. choose_initial_point g self = (v, self', g') \<and> initial_point self' = v)
     \<and> (warm_start self \<and> fit minimize g self data = Inr (fitted, gen) \<longrightarrow>
          (\<exists>r. minimize data (fst (choose_initial_point g self)) = Inr r
             \<and> fit_result fitted = Some r
             \<and> fit minimize gen fitted more_data =
                 (case minimize more_data (opt_x r) of
                    Inl e \<Rightarrow> Inl e
                  | Inr r' \<Rightarrow>
                      Inr (fitted\<lparr>initial_point := opt_x r, fit_result := Some r'\<rparr>, gen))
             \<and> fit_before_fix minimize gen fitted more_data = Inl TypeError))"
proof (intro conjI allI impI)
  fix r
  assume "warm_start self \<and> fit_result self = Some r"
  then show "choose_initial_point g self = (opt_x r, self\<lparr>initial_point := opt_x r\<rparr>, g)"
    by (simp add: choose_initial_point_warm)
next
  assume "\<not> (warm_start self \<and> fit_result self \<noteq> None) \<and> initial_point self = None"
  then have "choose_initial_point g self =
      (Some (stake (num_weights self) g),
       self\<lparr>initial_point := Some (stake (num_weights self) g)\<rparr>,
       sdrop (num_weights self) g)"
    by (intro choose_initial_point_random) simp_all
  then show "\<exists>p g'. choose_initial_point g self = (Some p, self\<lparr>initial_point := Some p\<rparr>, g')
      \<and> (p, g') = random_sample g (num_weights self) \<and> length p = num_weights self"
    by (simp add: random_sample_def)
next
  fix p
  assume "\<not> (warm_start self \<and> fit_result self \<noteq> None) \<and> initial_point self = Some p"
  then show "choose_initial_point g self = (Some p, self, g)"
    by (intro choose_initial_point_keep) simp_all
next
  show "\<exists>v self' g'. choose_initial_point g self = (v, self', g') \<and> initial_point self' = v"
    by (rule choose_initial_point_returns_stored)
next
  assume a: "warm_start self \<and> fit minimize g self data = Inr (fitted, gen)"
  from a have first: "fit minimize g self data = Inr (fitted, gen)" ..
  from fit_stores_result [OF first]
  obtain r where r: "minimize data (fst (choose_initial_point g self)) = Inr r"
      and st: "fit_result fitted = Some r" and w': "warm_start fitted = warm_start self"
    by (elim exE conjE)
  from a w' have w: "warm_start fitted" by simp
  show "\<exists>r. minimize data (fst (choose_initial_point g self)) = Inr r
      \<and> fit_result fitted = Some r
      \<and> fit minimize gen fitted more_data =
          (case minimize more_data (opt_x r) of
             Inl e \<Rightarrow> Inl e
           | Inr r' \<Rightarrow> Inr (fitted\<lparr>initial_point := opt_x r, fit_result := Some r'\<rparr>, gen))
      \<and> fit_before_fix minimize gen fitted more_data = Inl TypeError"
  proof (intro exI conjI)
    show "minimize data (fst (choose_initial_point g self)) = Inr r" by (rule r)
    show "fit_result fitted = Some r" by (rule st)
    show "fit minimize gen fitted more_data =
          (case minimize more_data (opt_x r) of
             Inl e \<Rightarrow> Inl e
           | Inr r' \<Rightarrow> Inr (fitted\<lparr>initial_point := opt_x r, fit_result := Some r'\<rparr>, gen))"
      by (rule fit_warm_second [OF w st])
    show "fit_before_fix minimize gen fitted more_data = Inl TypeError"
      by (rule fit_before_fix_warm_second [OF w st])
  qed
qed

text \<open>
  Two fits in a row of a warm-started model with two weights, a preset start \<open>[1, 2]\<close>
  and an optimizer that moves every entry of its start point by the data value: the
  first fit on \<open>100\<close> stores \<open>[101, 102]\<close>, the second on \<open>1000\<close> starts there and stores
  \<open>[1101, 1102]\<close>, and before the fix the second fit raises. Then the two other
  branches of the method, with a generator that yields \<open>1/2\<close> forever: no point set,
  and a preset point kept by a model without warm start.
\<close>

theorem choose_initial_point_correct_witness:
  "fit (\<lambda>d x0. Inr \<lparr>opt_x = map_option (map (\<lambda>v. v + d)) x0\<rparr>) (sconst (1/2::real))
      \<lparr>warm_start = True, fit_result = None, initial_point = Some [1, 2], num_weights = 2\<rparr>
      (100::real)
     = Inr (\<lparr>warm_start = True, fit_result = Some \<lparr>opt_x = Some [101, 102]\<rparr>,
             initial_point = Some [1, 2], num_weights = 2\<rparr>, sconst (1/2))
   \<and> fit (\<lambda>d x0. Inr \<lparr>opt_x = map_option (map (\<lambda>v. v + d)) x0\<rparr>) (sconst (1/2::real))
        \<lparr>warm_start = True, fit_result = Some \<lparr>opt_x = Some [101, 102]\<rparr>,
         initial_point = Some [1, 2], num_weights = 2\<rparr>
        (1000::real)
     = Inr (\<lparr>warm_start = True, fit_result = Some \<lparr>opt_x = Some [1101, 1102]\<rparr>,
             initial_point = Some [101, 102], num_weights = 2\<rparr>, sconst (1/2))
   \<and> fit_before_fix (\<lambda>d x0. Inr \<lparr>opt_x = map_option (map (\<lambda>v. v + d)) x0\<rparr>)
        (sconst (1/2::real))
        \<lparr>warm_start = True, fit_result = Some \<lparr>opt_x = Some [101, 102]\<rparr>,
         initial_point = Some [1, 2], num_weights = 2\<rparr>
        (1000::real)
     = Inl TypeError
   \<and> choose_initial_point (sconst (1/2::real))
        \<lparr>warm_start = True, fit_result = None, initial_point = None, num_weights = 2\<rparr>
     = (Some [1/2, 1/2],
        \<lparr>warm_start = True, fit_result = None, initial_point = Some [1/2, 1/2],
         num_weights = 2\<rparr>,
        sconst (1/2))
   \<and> choose_initial_point (sconst (1/2::real))
        \<lparr>warm_start = False, fit_result = Some \<lparr>opt_x = Some [3, 4]\<rparr>,
         initial_point = Some [7, 8], num_weights = 2\<rparr>
     = (Some [7, 8],
        \<lparr>warm_start = False, fit_result = Some \<lparr>opt_x = Some [3, 4]\<rparr>,
         initial_point = Some [7, 8], num_weights = 2\<rparr>,
        sconst (1/2))"
proof -
  let ?opt = "\<lambda>(d::real) x0. Inr \<lparr>opt_x = map_option (map (\<lambda>v. v + d)) x0\<rparr>
                :: py_error + real OptimizerResult"
  let ?g = "sconst (1/2::real)"
  let ?self0 = "\<lparr>warm_start = True, fit_result = None, initial_point = Some [1, 2::real],
                 num_weights = 2\<rparr>"
  let ?self1 = "\<lparr>warm_start = True, fit_result = Some \<lparr>opt_x = Some [101, 102::real]\<rparr>,
                 initial_point = Some [1, 2], num_weights = 2\<rparr>"
  have sample: "random_sample ?g 2 = ([1/2, 1/2], ?g)"
    by (simp add: random_sample_def numeral_2_eq_2)
  have first: "fit ?opt ?g ?self0 100 = Inr (?self1, ?g)"
    by (simp add: fit_def choose_initial_point_def)
  have warm: "warm_start ?self0" by simp
  have "\<exists>r. ?opt 100 (fst (choose_initial_point ?g ?self0)) = Inr r
      \<and> fit_result ?self1 = Some r
      \<and> fit ?opt ?g ?self1 1000 =
          (case ?opt 1000 (opt_x r) of
             Inl e \<Rightarrow> Inl e
           | Inr r' \<Rightarrow> Inr (?self1\<lparr>initial_point := opt_x r, fit_result := Some r'\<rparr>, ?g))
      \<and> fit_before_fix ?opt ?g ?self1 1000 = Inl TypeError"
    by (rule choose_initial_point_correct [where self = ?self0 and g = ?g and minimize = ?opt
          and data = 100 and more_data = 1000 and fitted = ?self1 and gen = ?g,
          THEN conjunct2, THEN conjunct2, THEN conjunct2, THEN conjunct2, THEN mp,
          OF conjI [OF warm first]])
  then obtain r where stored: "fit_result ?self1 = Some r"
      and resumed: "fit ?opt ?g ?self1 1000 =
          (case ?opt 1000 (opt_x r) of
             Inl e \<Rightarrow> Inl e
           | Inr r' \<Rightarrow> Inr (?self1\<lparr>initial_point := opt_x r, fit_result := Some r'\<rparr>, ?g))"
      and before: "fit_before_fix ?opt ?g ?self1 1000 = Inl TypeError"
    by (elim exE conjE)
  from stored have "r = \<lparr>opt_x = Some [101, 102]\<rparr>" by simp
  with resumed have second: "fit ?opt ?g ?self1 1000 =
        Inr (\<lparr>warm_start = True, fit_result = Some \<lparr>opt_x = Some [1101, 1102]\<rparr>,
              initial_point = Some [101, 102], num_weights = 2\<rparr>, ?g)"
    by simp
  have random: "choose_initial_point ?g
        \<lparr>warm_start = True, fit_result = None, initial_point = None, num_weights = 2\<rparr>
     = (Some [1/2, 1/2],
        \<lparr>warm_start = True, fit_result = None, initial_point = Some [1/2, 1/2],
         num_weights = 2\<rparr>, ?g)"
    using choose_initial_point_correct [where
        self = "\<lparr>warm_start = True, fit_result = None, initial_point = None, num_weights = 2\<rparr>"
        and g = ?g and minimize = ?opt]
    by (auto simp add: sample)
  have keep: "choose_initial_point ?g
        \<lparr>warm_start = False, fit_result = Some \<lparr>opt_x = Some [3, 4]\<rparr>,
         initial_point = Some [7, 8], num_weights = 2\<rparr>
     = (Some [7, 8],
        \<lparr>warm_start = False, fit_result = Some \<lparr>opt_x = Some [3, 4]\<rparr>,
         initial_point = Some [7, 8], num_weights = 2\<rparr>, ?g)"
    using choose_initial_point_correct [where
        self = "\<lparr>warm_start = False, fit_result = Some \<lparr>opt_x = Some [3, 4]\<rparr>,
                 initial_point = Some [7, 8], num_weights = 2\<rparr>"
        and g = ?g and minimize = ?opt]
    by simp
  from first second before random keep show ?thesis by (intro conjI)
qed

text \<open>
  A stored result may lack a final point (\<open>x\<close> is optional). The method then hands on
  \<open>None\<close>, overwriting a point set before.
\<close>

lemma choose_initial_point_result_without_point:
  "choose_initial_point g
      \<lparr>warm_start = True, fit_result = Some \<lparr>opt_x = None\<rparr>, initial_point = Some p,
       num_weights = n\<rparr>
     = (None,
        \<lparr>warm_start = True, fit_result = Some \<lparr>opt_x = None\<rparr>, initial_point = None,
         num_weights = n\<rparr>,
        g)"
  by (simp add: choose_initial_point_def)

text \<open>
  The line the fix replaced fails exactly where the warm start applies; everywhere
  else the two versions of the method agree.
\<close>

lemma choose_initial_point_before_fix_fails:
  "warm_start self \<Longrightarrow> fit_result self = Some r \<Longrightarrow>
     choose_initial_point_before_fix g self = Inl TypeError"
  by (simp add: choose_initial_point_before_fix_def)

lemma choose_initial_point_before_fix_agrees:
  "\<not> (warm_start self \<and> fit_result self \<noteq> None) \<Longrightarrow>
     choose_initial_point_before_fix g self = Inr (choose_initial_point g self)"
  by (auto simp add: choose_initial_point_before_fix_def choose_initial_point_def Let_def
      split: prod.splits)

section \<open>Properties of \<open>DummyClass.foo_deprecated\<close>\<close>

text \<open>What the method body does on every list and index.\<close>

lemma foo_deprecated_cases:
  assumes "arg2 self = Some xs"
  shows "foo_deprecated globals self i =
     (if int (length xs) < i then Inl (raise_QiskitError globals ''there is an error'')
      else if 0 \<le> i \<and> i < int (length xs) then Inr (xs ! nat i)
      else if - int (length xs) \<le> i \<and> i < 0 then Inr (xs ! nat (int (length xs) + i))
      else Inl IndexError)"
  using assms by (auto simp add: foo_deprecated_def py_len_def py_getitem_def)

lemma foo_deprecated_first:
  "foo_deprecated globals (DummyClass_init (Some 1) (Some [1, 2])) 0 = Inr 1"
  by (simp add: foo_deprecated_def DummyClass_init_def py_len_def py_getitem_def)

text \<open>
  Claim C5 says that \<open>foo_deprecated(index_arg2)\<close> raises \<open>QiskitError\<close> exactly when
  \<open>len(self.arg2) < index_arg2\<close> and returns \<open>self.arg2[index_arg2]\<close> otherwise. On the
  notebook's own object \<open>d = DummyClass(1, [1, 2])\<close> the method does neither at three
  indices. At index \<open>2 = len(d.arg2)\<close> the guard \<open>2 < 2\<close> is false and the subscript
  raises \<open>IndexError\<close>. At index \<open>3\<close> the guard holds, and the \<open>raise\<close> statement raises
  \<open>NameError\<close>, since the notebook never imports \<open>QiskitError\<close>. At index \<open>-3\<close> the
  guard is false and the subscript raises \<open>IndexError\<close>.
\<close>

theorem foo_deprecated_failing_inputs:
  "foo_deprecated notebook_globals (DummyClass_init (Some 1) (Some [1, 2])) 2 = Inl IndexError
   \<and> foo_deprecated notebook_globals (DummyClass_init (Some 1) (Some [1, 2])) 3
       = Inl (NameError ''QiskitError'')
   \<and> foo_deprecated notebook_globals (DummyClass_init (Some 1) (Some [1, 2])) (- 3)
       = Inl IndexError"
  by (simp add: foo_deprecated_def DummyClass_init_def py_len_def py_getitem_def
      raise_QiskitError_def notebook_globals_def)

end
